theory Spec2Isabelle
  imports Main
begin

section \<open>Python values read from the database\<close>

text \<open>
  The values that \<^verbatim>\<open>json.loads\<close> hands to \<^verbatim>\<open>read_chat_history\<close>: \<^verbatim>\<open>None\<close>,
  booleans, integers, strings, lists and dictionaries. A dictionary is an association list
  in insertion order. Non-integer JSON numbers are left out of the model. A \<open>char\<close> stands
  for one code point below 256, so the strings covered are those of the Latin-1 range.
\<close>

datatype json =
    JNull
  | JBool bool
  | JInt int
  | JStr string
  | JList "json list"
  | JObj "(string \<times> json) list"

text \<open>Python truth value testing (\<^verbatim>\<open>if x:\<close>, \<^verbatim>\<open>not x\<close>, \<^verbatim>\<open>x or y\<close>).\<close>

fun truthy :: "json \<Rightarrow> bool" where
  "truthy JNull = False"
| "truthy (JBool b) = b"
| "truthy (JInt i) = (i \<noteq> 0)"
| "truthy (JStr s) = (s \<noteq> [])"
| "truthy (JList xs) = (xs \<noteq> [])"
| "truthy (JObj d) = (d \<noteq> [])"

text \<open>\<^verbatim>\<open>x or y\<close> returns \<^verbatim>\<open>x\<close> when it is truthy and \<^verbatim>\<open>y\<close> otherwise.\<close>

definition py_or :: "json \<Rightarrow> json \<Rightarrow> json" where
  "py_or x y = (if truthy x then x else y)"

text \<open>\<^verbatim>\<open>d.get(k)\<close> and \<^verbatim>\<open>d.get(k, default)\<close>.\<close>

definition dict_get_default :: "(string \<times> json) list \<Rightarrow> string \<Rightarrow> json \<Rightarrow> json" where
  "dict_get_default d k dflt = (case map_of d k of None \<Rightarrow> dflt | Some v \<Rightarrow> v)"

definition dict_get :: "(string \<times> json) list \<Rightarrow> string \<Rightarrow> json" where
  "dict_get d k = dict_get_default d k JNull"

text \<open>
  \<^verbatim>\<open>x == n\<close> for an integer literal \<^verbatim>\<open>n\<close>: in Python \<^verbatim>\<open>True == 1\<close> and
  \<^verbatim>\<open>False == 0\<close> hold, and no string, list, dictionary or \<^verbatim>\<open>None\<close> equals an integer.
\<close>

fun py_eq_int :: "json \<Rightarrow> int \<Rightarrow> bool" where
  "py_eq_int (JInt i) n = (i = n)"
| "py_eq_int (JBool b) n = ((if b then 1 else 0) = n)"
| "py_eq_int _ n = False"

text \<open>\<^verbatim>\<open>x == "s"\<close> for a string literal.\<close>

fun py_eq_str :: "json \<Rightarrow> string \<Rightarrow> bool" where
  "py_eq_str (JStr s) t = (s = t)"
| "py_eq_str _ t = False"

section \<open>Python string operations\<close>

text \<open>\<^verbatim>\<open>str.isspace\<close> on one character of the Latin-1 range.\<close>

definition py_isspace :: "char \<Rightarrow> bool" where
  "py_isspace c = (of_char c \<in> set [9, 10, 11, 12, 13, 28, 29, 30, 31, 32, 133, 160 :: nat])"

definition py_strip :: "string \<Rightarrow> string" where
  "py_strip s = rev (dropWhile py_isspace (rev (dropWhile py_isspace s)))"

definition py_startswith :: "string \<Rightarrow> string \<Rightarrow> bool" where
  "py_startswith s p = (take (length p) s = p)"

text \<open>\<^verbatim>\<open>needle in hay\<close> on strings.\<close>

fun py_contains :: "string \<Rightarrow> string \<Rightarrow> bool" where
  "py_contains needle [] = (needle = [])"
| "py_contains needle (c # cs) = (py_startswith (c # cs) needle \<or> py_contains needle cs)"

text \<open>\<^verbatim>\<open>sep.join(xs)\<close>.\<close>

fun py_join :: "string \<Rightarrow> string list \<Rightarrow> string" where
  "py_join sep [] = []"
| "py_join sep [x] = x"
| "py_join sep (x # y # ys) = x @ sep @ py_join sep (y # ys)"

text \<open>\<^verbatim>\<open>text.split("\n")\<close>: the result always has at least one element.\<close>

fun split_lines :: "string \<Rightarrow> string list" where
  "split_lines [] = [[]]"
| "split_lines (c # cs) =
     (if c = CHR 10 then [] # split_lines cs
      else (case split_lines cs of [] \<Rightarrow> [[c]] | l # ls \<Rightarrow> (c # l) # ls))"

text \<open>\<^verbatim>\<open>str(n)\<close> for an integer.\<close>

fun str_nat :: "nat \<Rightarrow> string" where
  "str_nat n =
     (if n < 10 then [''0123456789'' ! n]
      else str_nat (n div 10) @ [''0123456789'' ! (n mod 10)])"

declare str_nat.simps [simp del]

definition str_int :: "int \<Rightarrow> string" where
  "str_int i = (if i < 0 then CHR ''-'' # str_nat (nat (- i)) else str_nat (nat i))"

text \<open>
  \<^verbatim>\<open>repr\<close> of a string. Python quotes with \<^verbatim>\<open>'\<close> unless the string holds a \<^verbatim>\<open>'\<close> and
  no \<^verbatim>\<open>"\<close>; it escapes the backslash, the chosen quote, tab, newline and carriage return,
  and writes every other non-printable character as \<^verbatim>\<open>\xhh\<close>. In the Latin-1 range the
  printable characters are 32 to 126 and 161 to 255 without 173.
\<close>

definition py_isprintable :: "char \<Rightarrow> bool" where
  "py_isprintable c =
     (let n = (of_char c :: nat) in (32 \<le> n \<and> n < 127) \<or> (161 \<le> n \<and> n \<noteq> 173))"

definition hex2 :: "char \<Rightarrow> string" where
  "hex2 c = (let n = (of_char c :: nat)
             in [''0123456789abcdef'' ! (n div 16), ''0123456789abcdef'' ! (n mod 16)])"

definition repr_char :: "char \<Rightarrow> char \<Rightarrow> string" where
  "repr_char q c =
     (if c = q \<or> c = CHR 0x5C then [CHR 0x5C, c]
      else if c = CHR 9 then [CHR 0x5C, CHR ''t'']
      else if c = CHR 10 then [CHR 0x5C, CHR ''n'']
      else if c = CHR 13 then [CHR 0x5C, CHR ''r'']
      else if py_isprintable c then [c]
      else [CHR 0x5C, CHR ''x''] @ hex2 c)"

definition repr_str :: "string \<Rightarrow> string" where
  "repr_str s =
     (let q = (if CHR 0x27 \<in> set s \<and> CHR 0x22 \<notin> set s then CHR 0x22 else CHR 0x27)
      in [q] @ concat (map (repr_char q) s) @ [q])"

text \<open>\<^verbatim>\<open>repr\<close> of a value, which is what \<^verbatim>\<open>str(msg)\<close> gives for a dictionary.\<close>

fun py_repr :: "json \<Rightarrow> string" where
  "py_repr JNull = ''None''"
| "py_repr (JBool b) = (if b then ''True'' else ''False'')"
| "py_repr (JInt i) = str_int i"
| "py_repr (JStr s) = repr_str s"
| "py_repr (JList xs) = ''['' @ py_join '', '' (map py_repr xs) @ '']''"
| "py_repr (JObj d) =
     ''{'' @ py_join '', '' (map (\<lambda>(k, v). repr_str k @ '': '' @ py_repr v) d) @ ''}''"

text \<open>\<^verbatim>\<open>str(x)\<close>, as an f-string field formats it: a string is itself.\<close>

fun py_str :: "json \<Rightarrow> string" where
  "py_str (JStr s) = s"
| "py_str v = py_repr v"

section \<open>Sessions and messages\<close>

text \<open>
  The dictionaries built by \<^verbatim>\<open>read_chat_history\<close>. A kept message always carries a
  string as content (see \<open>content_text\<close> below), so the field is a string. The counters
  start at 0 and are only incremented.
\<close>

record message =
  role :: json
  content :: string

record session =
  composerId :: json
  version :: json
  title :: json
  messages :: "message list"
  user_questions :: int
  chat_count :: int

datatype py_exception = AttributeError | TypeError | OSError

section \<open>Record normalisation: the body of \<^verbatim>\<open>read_chat_history\<close>\<close>

text \<open>
  \<^verbatim>\<open>role = msg.get('role') or msg.get('type') or ('user' if msg.get('isUser') else 'assistant')\<close>
\<close>

definition resolve_role :: "(string \<times> json) list \<Rightarrow> json" where
  "resolve_role msg =
     py_or (dict_get msg ''role'')
       (py_or (dict_get msg ''type'')
          (if truthy (dict_get msg ''isUser'') then JStr ''user'' else JStr ''assistant''))"

text \<open>
  \<^verbatim>\<open>content = msg.get('content') or msg.get('text') or msg.get('message', '')\<close>
\<close>

definition resolve_content :: "(string \<times> json) list \<Rightarrow> json" where
  "resolve_content msg =
     py_or (dict_get msg ''content'')
       (py_or (dict_get msg ''text'') (dict_get_default msg ''message'' (JStr '''')))"

text \<open>
  The chain of \<^verbatim>\<open>or\<close> that computes \<^verbatim>\<open>has_attachment\<close>; only its truth value is used,
  which is the disjunction of the truth values of its operands.
\<close>

definition has_attachment :: "(string \<times> json) list \<Rightarrow> bool" where
  "has_attachment msg =
     (truthy (dict_get msg ''attachments'') \<or>
      truthy (dict_get msg ''files'') \<or>
      truthy (dict_get msg ''images'') \<or>
      truthy (dict_get msg ''additional_data'') \<or>
      truthy (dict_get msg ''terminal_selections'') \<or>
      truthy (dict_get msg ''terminalSelections'') \<or>
      py_contains ''terminal'' (py_repr (JObj msg)) \<or>
      py_contains ''additional_data'' (py_repr (JObj msg)) \<or>
      py_contains ''attachments'' (py_repr (JObj msg)) \<or>
      py_contains ''file_contents'' (py_repr (JObj msg)) \<or>
      py_contains ''attached_files'' (py_repr (JObj msg)))"

text \<open>\<^verbatim>\<open>role in ["1", 1, "user"]\<close> and \<^verbatim>\<open>role in ["2", 2, "assistant"]\<close>.\<close>

definition is_user_role :: "json \<Rightarrow> bool" where
  "is_user_role r = (py_eq_str r ''1'' \<or> py_eq_int r 1 \<or> py_eq_str r ''user'')"

definition is_assistant_role :: "json \<Rightarrow> bool" where
  "is_assistant_role r = (py_eq_str r ''2'' \<or> py_eq_int r 2 \<or> py_eq_str r ''assistant'')"

text \<open>
  The content as the tests \<^verbatim>\<open>not content or content.strip() == ''\<close> and \<^verbatim>\<open>if content:\<close>
  see it. A truthy value that is not a string reaches \<^verbatim>\<open>content.strip()\<close>, which raises
  AttributeError. A falsy value that is not a string (\<^verbatim>\<open>None\<close>, \<^verbatim>\<open>0\<close>, \<^verbatim>\<open>False\<close>,
  \<^verbatim>\<open>[]\<close>, \<^verbatim>\<open>{}\<close>) passes \<^verbatim>\<open>not content\<close> and fails \<^verbatim>\<open>if content:\<close> as the empty
  string does, and is never stored; it is read as the empty string.
\<close>

fun content_text :: "json \<Rightarrow> py_exception + string" where
  "content_text (JStr s) = Inr s"
| "content_text v = (if truthy v then Inl AttributeError else Inr [])"

text \<open>\<^verbatim>\<open>not content or content.strip() == ''\<close> on a string.\<close>

definition blank :: "string \<Rightarrow> bool" where
  "blank s = (s = [] \<or> py_strip s = [])"

text \<open>
  The placeholder \<^verbatim>\<open>"(User inserted an attachment\<close>\<open>\<dots>\<close>\<^verbatim>\<open>)"\<close>, which ends with the paperclip
  U+1F4CE before the bracket. That code point is beyond the range of \<open>char\<close> and is
  written as its four UTF-8 bytes; none of them is a whitespace, a newline, a backtick or
  an HTML metacharacter.
\<close>

definition placeholder :: string where
  "placeholder = ''(User inserted an attachment'' @ [CHR 0xF0, CHR 0x9F, CHR 0x93, CHR 0x8E] @ '')''"

text \<open>
  One round of \<^verbatim>\<open>for msg in conversation\<close>. The state is the session under construction
  and the cursor \<^verbatim>\<open>current_role\<close> (\<^verbatim>\<open>None\<close>, \<^verbatim>\<open>"user"\<close> or \<^verbatim>\<open>"assistant"\<close>). An entry
  that is not a dictionary is passed over. Console output is not modelled.
\<close>

fun process_msg ::
  "json \<Rightarrow> session \<times> string option \<Rightarrow> py_exception + session \<times> string option" where
  "process_msg (JObj msg) (s, current_role) =
     (let role = resolve_role msg;
          content = resolve_content msg;
          att = has_attachment msg
      in if truthy role then
           (case content_text content of
              Inl e \<Rightarrow> Inl e
            | Inr text \<Rightarrow>
                (let text' = (if blank text \<and> att \<and> is_user_role role then placeholder else text)
                 in if text' \<noteq> [] then
                      (let s1 = s\<lparr>messages := messages s @ [\<lparr>role = role, content = text'\<rparr>]\<rparr>
                       in if is_user_role role then
                            Inr (s1\<lparr>user_questions := user_questions s1 + 1,
                                    chat_count := chat_count s1 + 1\<rparr>, Some ''user'')
                          else if is_assistant_role role then
                            Inr (if current_role = Some ''user''
                                 then s1\<lparr>chat_count := chat_count s1 + 1\<rparr> else s1,
                                 Some ''assistant'')
                          else Inr (s1, current_role))
                    else Inr (s, current_role)))
         else Inr (s, current_role))"
| "process_msg v st = Inr st"

text \<open>The loop over the conversation; an exception leaves it.\<close>

fun process_conversation ::
  "json list \<Rightarrow> session \<times> string option \<Rightarrow> py_exception + session \<times> string option" where
  "process_conversation [] st = Inr st"
| "process_conversation (m # ms) st =
     (case process_msg m st of Inl e \<Rightarrow> Inl e | Inr st' \<Rightarrow> process_conversation ms st')"

text \<open>
  What \<^verbatim>\<open>len(conversation)\<close> and \<^verbatim>\<open>for msg in conversation\<close> do with the value found
  under \<^verbatim>\<open>'conversation'\<close>: a list gives its elements, a string its characters, a
  dictionary its keys, and \<^verbatim>\<open>len\<close> raises TypeError on anything else.
\<close>

fun conversation_items :: "json \<Rightarrow> py_exception + json list" where
  "conversation_items (JList xs) = Inr xs"
| "conversation_items (JStr s) = Inr (map (\<lambda>c. JStr [c]) s)"
| "conversation_items (JObj d) = Inr (map (\<lambda>kv. JStr (fst kv)) d)"
| "conversation_items v = Inl TypeError"

text \<open>
  The body of \<^verbatim>\<open>for key, value in composer_records\<close> from \<^verbatim>\<open>data = json.loads(...)\<close> up
  to the finished session. \<^verbatim>\<open>data.keys()\<close> raises AttributeError unless \<^verbatim>\<open>data\<close> is a
  dictionary.
\<close>

fun build_session :: "json \<Rightarrow> py_exception + session" where
  "build_session (JObj data) =
     (case conversation_items (dict_get_default data ''conversation'' (JList [])) of
        Inl e \<Rightarrow> Inl e
      | Inr conversation \<Rightarrow>
          (let title = py_or (dict_get data ''title'')
                         (dict_get_default data ''name'' (JStr ''Unnamed Session''));
               session = \<lparr>composerId = dict_get_default data ''composerId'' (JStr ''''),
                          version = dict_get_default data ''_v'' (JInt 0),
                          title = title,
                          messages = [],
                          user_questions = 0,
                          chat_count = 0\<rparr>
           in (case process_conversation conversation (session, None) of
                 Inl e \<Rightarrow> Inl e
               | Inr (session', current_role) \<Rightarrow> Inr session')))"
| "build_session v = Inl AttributeError"

text \<open>
  One stored record. The value is \<open>None\<close> when decoding or \<^verbatim>\<open>json.loads\<close> raises. Any
  exception is caught by the inner \<^verbatim>\<open>except\<close> and the record is passed over; a session
  is appended only \<^verbatim>\<open>if session['messages']\<close>.
\<close>

definition process_record :: "session list \<Rightarrow> json option \<Rightarrow> session list" where
  "process_record all_chat_sessions value =
     (case value of
        None \<Rightarrow> all_chat_sessions
      | Some data \<Rightarrow>
          (case build_session data of
             Inl e \<Rightarrow> all_chat_sessions
           | Inr session \<Rightarrow>
               if messages session \<noteq> [] then all_chat_sessions @ [session]
               else all_chat_sessions))"

definition process_records :: "session list \<Rightarrow> json option list \<Rightarrow> session list" where
  "process_records all_chat_sessions values = foldl process_record all_chat_sessions values"

section \<open>The text-safety transform\<close>

text \<open>\<^verbatim>\<open>text.replace(c, r)\<close> for a one-character pattern.\<close>

definition py_replace_char :: "char \<Rightarrow> string \<Rightarrow> string \<Rightarrow> string" where
  "py_replace_char c r s = concat (map (\<lambda>x. if x = c then r else [x]) s)"

text \<open>
  \<^verbatim>\<open>text.replace("&", "&amp;").replace("<", "&lt;").replace(">", "&gt;")\<close>
\<close>

definition html_escape :: "string \<Rightarrow> string" where
  "html_escape text =
     py_replace_char CHR ''>'' ''&gt;''
       (py_replace_char CHR ''<'' ''&lt;'' (py_replace_char CHR ''&'' ''&amp;'' text))"

text \<open>\<^verbatim>\<open>f"<pre><code>{''.join(code_block)}</code></pre>"\<close>\<close>

definition pre_block :: "string list \<Rightarrow> string" where
  "pre_block code_block = ''<pre><code>'' @ concat code_block @ ''</code></pre>''"

text \<open>
  The loop \<^verbatim>\<open>for line in lines\<close> of \<^verbatim>\<open>process_code_blocks\<close>; the state is
  \<^verbatim>\<open>(processed_lines, in_code_block, code_block)\<close>.
\<close>

fun scan_lines ::
  "string list \<Rightarrow> string list \<times> bool \<times> string list \<Rightarrow> string list \<times> bool \<times> string list" where
  "scan_lines [] st = st"
| "scan_lines (line # rest) (processed_lines, in_code_block, code_block) =
     (if py_startswith (py_strip line) ''```'' then
        (if in_code_block
         then scan_lines rest (processed_lines @ [pre_block code_block], False, [])
         else scan_lines rest (processed_lines, True, code_block))
      else if in_code_block
        then scan_lines rest (processed_lines, in_code_block, code_block @ [line @ [CHR 10]])
      else scan_lines rest (processed_lines @ [line], in_code_block, code_block))"

definition process_code_blocks :: "string \<Rightarrow> string" where
  "process_code_blocks text =
     (if text = [] then []
      else (case scan_lines (split_lines (html_escape text)) ([], False, []) of
              (processed_lines, in_code_block, code_block) \<Rightarrow>
                py_join ''<br>''
                  (if in_code_block \<and> code_block \<noteq> []
                   then processed_lines @ [pre_block code_block]
                   else processed_lines)))"

section \<open>The report renderer\<close>

definition nl :: string where
  "nl = [CHR 10]"

definition spaces :: "nat \<Rightarrow> string" where
  "spaces n = replicate n CHR '' ''"

text \<open>The branches of \<^verbatim>\<open>for msg in messages\<close>: a message gives one block or none.\<close>

definition message_block :: "message \<Rightarrow> string list" where
  \<open>message_block msg =
     (if py_eq_str (role msg) ''1'' \<or> py_eq_int (role msg) 1 then
        [''<div class="message user-message">'' @ process_code_blocks (content msg) @ ''</div>'']
      else if py_eq_str (role msg) ''2'' \<or> py_eq_int (role msg) 2 then
        [''<div class="message assistant-message">'' @ process_code_blocks (content msg)
           @ ''</div>'']
      else [])\<close>

text \<open>The header line of a session, by mode.\<close>

definition session_header :: "session \<Rightarrow> string \<Rightarrow> string" where
  "session_header session mode =
     (if mode \<in> set [''current'', ''all''] then
        (let stats = (if mode = ''current''
                      then ''Total '' @ str_int (chat_count session) @ '' conversations''
                      else ''(Total '' @ str_int (chat_count session) @ '' conversations)'')
         in if mode = ''all'' then py_str (title session) @ '' '' @ stats else stats)
      else py_str (title session) @ '' (Total '' @ str_int (user_questions session)
             @ '' user questions)'')"

text \<open>The two triple-quoted f-strings, with their line breaks and indentation.\<close>

definition total_block :: "nat \<Rightarrow> string" where
  \<open>total_block n =
     nl @ spaces 12 @ ''<div class="chat-session">'' @
     nl @ spaces 16 @ ''<div class="chat-session-header">Total: '' @ str_int (int n)
        @ '' chat sessions</div>'' @
     nl @ spaces 12 @ ''</div>'' @
     nl @ spaces 12\<close>

definition session_block :: "string \<Rightarrow> string list \<Rightarrow> string" where
  \<open>session_block header session_content =
     nl @ spaces 16 @ ''<div class="chat-session">'' @
     nl @ spaces 20 @ ''<div class="chat-session-header">'' @ header @ ''</div>'' @
     nl @ spaces 20 @ concat session_content @
     nl @ spaces 16 @ ''</div>'' @
     nl @ spaces 16\<close>

text \<open>
  One round of \<^verbatim>\<open>for i, session in enumerate(chat_sessions, 1)\<close>: what it appends to
  \<^verbatim>\<open>content\<close>. The sessions are records, so the defaults of \<^verbatim>\<open>session.get\<close> (and with
  them the index \<^verbatim>\<open>i\<close>) are never used.
\<close>

definition render_session :: "string \<Rightarrow> session \<Rightarrow> string list" where
  "render_session mode session =
     (if messages session = [] then []
      else (let session_content = concat (map message_block (messages session))
            in if session_content \<noteq> []
               then [session_block (session_header session mode) session_content]
               else []))"

definition create_html_content :: "session list \<Rightarrow> string \<Rightarrow> string" where
  "create_html_content chat_sessions mode =
     py_join nl
       ((if mode \<in> set [''all'', ''summary''] then [total_block (length chat_sessions)] else [])
        @ concat (map (render_session mode) chat_sessions))"

section \<open>The extraction pass and its scratch files\<close>

text \<open>
  The working directory, as far as the pass touches it: the names of the files present,
  and the trace of the changes made to it. \<^verbatim>\<open>os.remove\<close> deletes a file that is present
  and raises FileNotFoundError otherwise, which the bare \<^verbatim>\<open>except\<close> swallows.
\<close>

datatype fs_event = Created string | Removed string | Remove_failed string

record workdir =
  files :: "string set"
  trace :: "fs_event list"

definition os_remove :: "string \<Rightarrow> workdir \<Rightarrow> workdir" where
  "os_remove p w =
     (if p \<in> files w
      then w\<lparr>files := files w - {p}, trace := trace w @ [Removed p]\<rparr>
      else w\<lparr>trace := trace w @ [Remove_failed p]\<rparr>)"

text \<open>
  A candidate database, as the pass meets it. \<^verbatim>\<open>shutil.copy2\<close> returns or raises, and
  when it raises the destination may or may not have been written already. The table
  \<^verbatim>\<open>cursorDiskKV\<close> is \<open>None\<close> when \<^verbatim>\<open>sqlite3.connect\<close> or one of the three queries
  raises; otherwise it lists the rows with the value of each as \<^verbatim>\<open>json.loads\<close> returns
  it (\<open>None\<close> when decoding or parsing raises).
\<close>

datatype copy_outcome = Copy_ok | Copy_raises bool

record database =
  copy :: copy_outcome
  cursorDiskKV :: "(string \<times> json option) list option"

text \<open>
  \<^verbatim>\<open>key LIKE 'composerData:%'\<close>: the key starts with the pattern's literal part, and
  SQLite's \<^verbatim>\<open>LIKE\<close> ignores the case of ASCII letters.
\<close>

definition ascii_lower :: "char \<Rightarrow> char" where
  "ascii_lower c =
     (let n = (of_char c :: nat) in if 65 \<le> n \<and> n \<le> 90 then char_of (n + 32) else c)"

definition like_composerData :: "string \<Rightarrow> bool" where
  "like_composerData key = (map ascii_lower (take 13 key) = ''composerdata:'')"

text \<open>\<^verbatim>\<open>f'temp_state_{len(all_chat_sessions)}.vscdb'\<close>, a name in the working directory.\<close>

definition temp_db_path :: "session list \<Rightarrow> string" where
  "temp_db_path all_chat_sessions =
     ''temp_state_'' @ str_int (int (length all_chat_sessions)) @ ''.vscdb''"

text \<open>
  One round of \<^verbatim>\<open>for db_path in self.db_paths\<close>: the \<^verbatim>\<open>try\<close> block, whose exceptions
  the outer \<^verbatim>\<open>except\<close> catches, and then the \<^verbatim>\<open>finally\<close> block, which runs on every
  path.
\<close>

definition process_db :: "session list \<times> workdir \<Rightarrow> database \<Rightarrow> session list \<times> workdir" where
  "process_db st db =
     (case st of (all_chat_sessions, w) \<Rightarrow>
        (let temp = temp_db_path all_chat_sessions;
             created = (case copy db of Copy_ok \<Rightarrow> True | Copy_raises written \<Rightarrow> written);
             w1 = (if created
                   then w\<lparr>files := insert temp (files w), trace := trace w @ [Created temp]\<rparr>
                   else w);
             sessions' =
               (case copy db of
                  Copy_raises written \<Rightarrow> all_chat_sessions
                | Copy_ok \<Rightarrow>
                    (case cursorDiskKV db of
                       None \<Rightarrow> all_chat_sessions
                     | Some rows \<Rightarrow>
                         process_records all_chat_sessions
                           (map snd (filter (\<lambda>kv. like_composerData (fst kv)) rows))))
         in (sessions', os_remove temp w1)))"

definition read_chat_history :: "database list \<Rightarrow> workdir \<Rightarrow> session list \<times> workdir" where
  "read_chat_history db_paths w =
     (if db_paths = [] then ([], w) else foldl process_db ([], w) db_paths)"

section \<open>The command line\<close>

text \<open>
  The exporter, once constructed: the candidate databases \<^verbatim>\<open>self.db_paths\<close> and the
  working directory. Each of the four export methods starts with
  \<^verbatim>\<open>chat_sessions = self.read_chat_history()\<close> and returns \<^verbatim>\<open>None\<close> \<^verbatim>\<open>if not chat_sessions\<close>.
  What a method does with a non-empty list (it renders, writes the file and returns its
  path or \<^verbatim>\<open>None\<close>, or an exception leaves it) depends on the clock and on the output
  directory; it is a parameter of the exporter.
\<close>

record exporter =
  db_paths :: "database list"
  cwd :: workdir
  write_current_chat :: "session list \<Rightarrow> py_exception + string option"
  write_all_chats :: "session list \<Rightarrow> py_exception + string option"
  write_current_summary :: "session list \<Rightarrow> py_exception + string option"
  write_summary :: "session list \<Rightarrow> py_exception + string option"

definition export_current_chat :: "exporter \<Rightarrow> py_exception + string option" where
  "export_current_chat self =
     (let chat_sessions = fst (read_chat_history (db_paths self) (cwd self))
      in if chat_sessions = [] then Inr None else write_current_chat self chat_sessions)"

definition export_all_chats :: "exporter \<Rightarrow> py_exception + string option" where
  "export_all_chats self =
     (let chat_sessions = fst (read_chat_history (db_paths self) (cwd self))
      in if chat_sessions = [] then Inr None else write_all_chats self chat_sessions)"

definition export_current_summary :: "exporter \<Rightarrow> py_exception + string option" where
  "export_current_summary self =
     (let chat_sessions = fst (read_chat_history (db_paths self) (cwd self))
      in if chat_sessions = [] then Inr None else write_current_summary self chat_sessions)"

definition export_summary :: "exporter \<Rightarrow> py_exception + string option" where
  "export_summary self =
     (let chat_sessions = fst (read_chat_history (db_paths self) (cwd self))
      in if chat_sessions = [] then Inr None else write_summary self chat_sessions)"

text \<open>
  \<^verbatim>\<open>main\<close>, with \<^verbatim>\<open>sys.argv\<close> and the exporter that \<^verbatim>\<open>ChatExporter()\<close> returned. The
  result names the message that \<^verbatim>\<open>main\<close> prints last and gives the exit status of the
  process: 1 after \<^verbatim>\<open>sys.exit(1)\<close>, 0 when \<^verbatim>\<open>main\<close> returns. \<^verbatim>\<open>if output_file:\<close> fails
  for \<^verbatim>\<open>None\<close> and for the empty string.
\<close>

datatype report =
    Usage
  | Export_successful string
  | Export_failed_no_chat_records
  | Error_during_export py_exception

definition main :: "string list \<Rightarrow> exporter \<Rightarrow> report \<times> int" where
  "main argv exporter =
     (if length argv \<noteq> 2 \<or> argv ! 1 \<notin> set [''current'', ''all'', ''summary'', ''current-summary'']
      then (Usage, 1)
      else (let mode = argv ! 1
            in (case (if mode = ''current'' then export_current_chat exporter
                      else if mode = ''all'' then export_all_chats exporter
                      else if mode = ''current-summary'' then export_current_summary exporter
                      else export_summary exporter) of
                  Inl e \<Rightarrow> (Error_during_export e, 1)
                | Inr output_file \<Rightarrow>
                    (case output_file of
                       None \<Rightarrow> (Export_failed_no_chat_records, 0)
                     | Some f \<Rightarrow>
                         if f \<noteq> [] then (Export_successful f, 0)
                         else (Export_failed_no_chat_records, 0)))))"

section \<open>Invariants of the message loop\<close>

text \<open>
  The relation between the two counters and the cursor that every round of the message
  loop keeps: a pending user message (cursor \<^verbatim>\<open>"user"\<close>) leaves room for one more
  increment of \<^verbatim>\<open>chat_count\<close>.
\<close>

definition counter_inv :: "session \<times> string option \<Rightarrow> bool" where
  "counter_inv st =
     (user_questions (fst st) \<le> chat_count (fst st) \<and>
      chat_count (fst st) + (if snd st = Some ''user'' then 1 else 0)
        \<le> 2 * user_questions (fst st))"

text \<open>What holds of every message in the list of a session.\<close>

definition kept_ok :: "session \<Rightarrow> bool" where
  "kept_ok s = (\<forall>m \<in> set (messages s). truthy (role m) \<and> content m \<noteq> [])"

section \<open>Properties of the normaliser\<close>

subsection \<open>Roles\<close>

lemma user_role_truthy: "is_user_role r \<Longrightarrow> truthy r"
  by (cases r) (auto simp: is_user_role_def split: if_splits)

lemma assistant_role_truthy: "is_assistant_role r \<Longrightarrow> truthy r"
  by (cases r) (auto simp: is_assistant_role_def split: if_splits)

lemma assistant_not_user: "is_assistant_role r \<Longrightarrow> \<not> is_user_role r"
  by (cases r) (auto simp: is_assistant_role_def is_user_role_def split: if_splits)

lemma placeholder_nonempty: "placeholder \<noteq> []"
  by (simp add: placeholder_def)

lemma process_msg_user:
  assumes "is_user_role (resolve_role msg)"
    and "content_text (resolve_content msg) = Inr text" and "text \<noteq> []"
  shows "process_msg (JObj msg) (s, cur) =
           Inr (s\<lparr>messages := messages s @
                    [\<lparr>role = resolve_role msg,
                      content = (if blank text \<and> has_attachment msg then placeholder else text)\<rparr>],
                  user_questions := user_questions s + 1,
                  chat_count := chat_count s + 1\<rparr>, Some ''user'')"
  using assms user_role_truthy [OF assms(1)]
  by (simp add: Let_def placeholder_nonempty)

lemma process_msg_assistant:
  assumes "is_assistant_role (resolve_role msg)"
    and "content_text (resolve_content msg) = Inr text" and "text \<noteq> []"
  shows "process_msg (JObj msg) (s, cur) =
           Inr (if cur = Some ''user''
                then s\<lparr>messages := messages s @ [\<lparr>role = resolve_role msg, content = text\<rparr>],
                       chat_count := chat_count s + 1\<rparr>
                else s\<lparr>messages := messages s @ [\<lparr>role = resolve_role msg, content = text\<rparr>]\<rparr>,
                Some ''assistant'')"
  using assms assistant_role_truthy [OF assms(1)] assistant_not_user [OF assms(1)]
  by (simp add: Let_def)

subsection \<open>Lifting a property of built sessions to the whole pass\<close>

lemma process_record_sessions:
  assumes "\<And>data s. build_session data = Inr s \<Longrightarrow> P s"
    and "\<forall>s \<in> set acc. P s"
  shows "\<forall>s \<in> set (process_record acc v). P s"
  using assms by (auto simp: process_record_def split: option.splits sum.splits)

lemma process_records_sessions:
  assumes "\<And>data s. build_session data = Inr s \<Longrightarrow> P s"
  shows "\<forall>s \<in> set acc. P s \<Longrightarrow> \<forall>s \<in> set (process_records acc vs). P s"
  unfolding process_records_def
proof (induction vs arbitrary: acc)
  case Nil
  then show ?case by simp
next
  case (Cons v vs)
  from process_record_sessions [of P acc v] assms Cons.prems
  have "\<forall>s \<in> set (process_record acc v). P s" by blast
  from Cons.IH [OF this] show ?case by simp
qed

lemma process_db_sessions:
  assumes "\<And>data s. build_session data = Inr s \<Longrightarrow> P s"
    and "\<forall>s \<in> set (fst st). P s"
  shows "\<forall>s \<in> set (fst (process_db st db)). P s"
proof -
  obtain acc w where st: "st = (acc, w)" by (cases st)
  show ?thesis
    using assms(2) process_records_sessions [of P acc, OF assms(1)]
    unfolding st process_db_def
    by (simp add: Let_def split: copy_outcome.splits option.splits)
qed

lemma foldl_process_db_sessions:
  assumes "\<And>data s. build_session data = Inr s \<Longrightarrow> P s"
  shows "\<forall>s \<in> set (fst st). P s \<Longrightarrow> \<forall>s \<in> set (fst (foldl process_db st dbs)). P s"
proof (induction dbs arbitrary: st)
  case Nil
  then show ?case by simp
next
  case (Cons db dbs)
  from process_db_sessions [of P st db] assms Cons.prems
  have "\<forall>s \<in> set (fst (process_db st db)). P s" by blast
  from Cons.IH [OF this] show ?case by simp
qed

lemma read_chat_history_sessions:
  assumes "\<And>data s. build_session data = Inr s \<Longrightarrow> P s"
  shows "\<forall>s \<in> set (fst (read_chat_history dbs w)). P s"
  using foldl_process_db_sessions [of P "([], w)" dbs, OF assms]
  by (simp add: read_chat_history_def)

lemma read_single_record:
  assumes "like_composerData key" and "build_session data = Inr s" and "messages s \<noteq> []"
  shows "fst (read_chat_history [\<lparr>copy = Copy_ok, cursorDiskKV = Some [(key, Some data)]\<rparr>] w) = [s]"
  using assms
  by (simp add: read_chat_history_def process_db_def process_records_def process_record_def
      Let_def)

subsection \<open>The counters\<close>

lemma process_msg_counter_inv:
  assumes "process_msg m st = Inr st'" and "counter_inv st"
  shows "counter_inv st'"
proof (cases m)
  case (JObj d)
  obtain s cur where st: "st = (s, cur)" by (cases st)
  from assms show ?thesis
    unfolding JObj st
    by (auto simp: counter_inv_def Let_def split: sum.splits if_splits)
qed (use assms in auto)

lemma process_conversation_counter_inv:
  "process_conversation ms st = Inr st' \<Longrightarrow> counter_inv st \<Longrightarrow> counter_inv st'"
proof (induction ms arbitrary: st)
  case Nil
  then show ?case by simp
next
  case (Cons m ms)
  then show ?case
    by (auto split: sum.splits dest: process_msg_counter_inv)
qed

lemma build_session_counters:
  assumes "build_session data = Inr s"
  shows "user_questions s \<le> chat_count s \<and> chat_count s \<le> 2 * user_questions s"
proof (cases data)
  case (JObj d)
  with assms obtain conv s0 cur where
    run: "process_conversation conv (s0, None) = Inr (s, cur)"
    and s0: "user_questions s0 = 0" "chat_count s0 = 0"
    by (auto simp: Let_def split: sum.splits prod.splits)
  have "counter_inv (s0, None)" by (simp add: counter_inv_def s0)
  from process_conversation_counter_inv [OF run this] show ?thesis
    by (auto simp: counter_inv_def split: if_splits)
qed (use assms in auto)

text \<open>
  Claim C7. In every session that \<^verbatim>\<open>read_chat_history\<close> returns, whatever the databases
  hold, \<^verbatim>\<open>chat_count\<close> is at least \<^verbatim>\<open>user_questions\<close>.
\<close>

theorem chat_count_ge_user_questions:
  "s \<in> set (fst (read_chat_history dbs w)) \<Longrightarrow> user_questions s \<le> chat_count s"
  using read_chat_history_sessions [of "\<lambda>s. user_questions s \<le> chat_count s" dbs w]
    build_session_counters by blast

theorem chat_count_ge_user_questions_witness:
  "(\<lparr>composerId = JStr [], version = JInt 0, title = JStr ''Unnamed Session'',
        messages = [\<lparr>role = JStr ''user'', content = ''q''\<rparr>,
                    \<lparr>role = JStr ''assistant'', content = ''a''\<rparr>,
                    \<lparr>role = JStr ''assistant'', content = ''b''\<rparr>],
        user_questions = 1, chat_count = 2\<rparr>
     \<in> set (fst (read_chat_history
        [\<lparr>copy = Copy_ok,
          cursorDiskKV = Some [(''composerData:a1'',
            Some (JObj [(''conversation'', JList
              [JObj [(''role'', JStr ''user''), (''content'', JStr ''q'')],
               JObj [(''role'', JStr ''assistant''), (''content'', JStr ''a'')],
               JObj [(''role'', JStr ''assistant''), (''content'', JStr ''b'')]])]))]\<rparr>]
        \<lparr>files = {}, trace = []\<rparr>)))
   \<and> (1::int) \<le> 2"
proof -
  have mem: "\<lparr>composerId = JStr [], version = JInt 0, title = JStr ''Unnamed Session'',
        messages = [\<lparr>role = JStr ''user'', content = ''q''\<rparr>,
                    \<lparr>role = JStr ''assistant'', content = ''a''\<rparr>,
                    \<lparr>role = JStr ''assistant'', content = ''b''\<rparr>],
        user_questions = 1, chat_count = 2\<rparr>
     \<in> set (fst (read_chat_history
        [\<lparr>copy = Copy_ok,
          cursorDiskKV = Some [(''composerData:a1'',
            Some (JObj [(''conversation'', JList
              [JObj [(''role'', JStr ''user''), (''content'', JStr ''q'')],
               JObj [(''role'', JStr ''assistant''), (''content'', JStr ''a'')],
               JObj [(''role'', JStr ''assistant''), (''content'', JStr ''b'')]])]))]\<rparr>]
        \<lparr>files = {}, trace = []\<rparr>))"
    by code_simp
  from chat_count_ge_user_questions [OF mem] mem show ?thesis by simp
qed

text \<open>
  Claim C10. In every session that \<^verbatim>\<open>read_chat_history\<close> returns, \<^verbatim>\<open>chat_count\<close> is at
  most twice \<^verbatim>\<open>user_questions\<close>: an assistant message is counted only when the cursor is
  \<^verbatim>\<open>"user"\<close>, and counting it moves the cursor away.
\<close>

theorem chat_count_le_twice_user_questions:
  "s \<in> set (fst (read_chat_history dbs w)) \<Longrightarrow> chat_count s \<le> 2 * user_questions s"
  using read_chat_history_sessions [of "\<lambda>s. chat_count s \<le> 2 * user_questions s" dbs w]
    build_session_counters by blast

theorem chat_count_le_twice_user_questions_witness:
  "(\<lparr>composerId = JStr [], version = JInt 0, title = JStr ''Unnamed Session'',
        messages = [\<lparr>role = JStr ''user'', content = ''q''\<rparr>,
                    \<lparr>role = JStr ''assistant'', content = ''a''\<rparr>,
                    \<lparr>role = JStr ''assistant'', content = ''b''\<rparr>],
        user_questions = 1, chat_count = 2\<rparr>
     \<in> set (fst (read_chat_history
        [\<lparr>copy = Copy_ok,
          cursorDiskKV = Some [(''composerData:a1'',
            Some (JObj [(''conversation'', JList
              [JObj [(''role'', JStr ''user''), (''content'', JStr ''q'')],
               JObj [(''role'', JStr ''assistant''), (''content'', JStr ''a'')],
               JObj [(''role'', JStr ''assistant''), (''content'', JStr ''b'')]])]))]\<rparr>]
        \<lparr>files = {}, trace = []\<rparr>)))
   \<and> (2::int) \<le> 2 * 1"
proof -
  have mem: "\<lparr>composerId = JStr [], version = JInt 0, title = JStr ''Unnamed Session'',
        messages = [\<lparr>role = JStr ''user'', content = ''q''\<rparr>,
                    \<lparr>role = JStr ''assistant'', content = ''a''\<rparr>,
                    \<lparr>role = JStr ''assistant'', content = ''b''\<rparr>],
        user_questions = 1, chat_count = 2\<rparr>
     \<in> set (fst (read_chat_history
        [\<lparr>copy = Copy_ok,
          cursorDiskKV = Some [(''composerData:a1'',
            Some (JObj [(''conversation'', JList
              [JObj [(''role'', JStr ''user''), (''content'', JStr ''q'')],
               JObj [(''role'', JStr ''assistant''), (''content'', JStr ''a'')],
               JObj [(''role'', JStr ''assistant''), (''content'', JStr ''b'')]])]))]\<rparr>]
        \<lparr>files = {}, trace = []\<rparr>))"
    by code_simp
  from chat_count_le_twice_user_questions [OF mem] mem show ?thesis by simp
qed

text \<open>
  Claim C2, as stated: the conversation user, assistant, assistant gives \<^verbatim>\<open>chat_count\<close> 3.
  It fails: on such a record the pass returns one session whose \<^verbatim>\<open>chat_count\<close> is not 3.
\<close>

theorem chat_count_three_counterexample:
  "map chat_count
     (fst (read_chat_history
        [\<lparr>copy = Copy_ok,
          cursorDiskKV = Some [(''composerData:a1'',
            Some (JObj [(''conversation'', JList
              [JObj [(''role'', JStr ''user''), (''content'', JStr ''q'')],
               JObj [(''role'', JStr ''assistant''), (''content'', JStr ''a'')],
               JObj [(''role'', JStr ''assistant''), (''content'', JStr ''b'')]])]))]\<rparr>]
        \<lparr>files = {}, trace = []\<rparr>))
   \<noteq> [3]"
  by code_simp

text \<open>
  Claim C2, amended. A stored record whose conversation is a user message followed by two
  assistant messages, each with a non-empty content, gives one session with three
  messages, \<^verbatim>\<open>user_questions\<close> 1 and \<^verbatim>\<open>chat_count\<close> 2: the user message and the first
  assistant message are counted, the second assistant message is not.
\<close>

theorem user_assistant_assistant_counts_two:
  assumes "like_composerData key"
    and "dict_get_default data ''conversation'' (JList []) = JList [JObj m1, JObj m2, JObj m3]"
    and "is_user_role (resolve_role m1)"
    and "is_assistant_role (resolve_role m2)"
    and "is_assistant_role (resolve_role m3)"
    and "content_text (resolve_content m1) = Inr t1" and "t1 \<noteq> []"
    and "content_text (resolve_content m2) = Inr t2" and "t2 \<noteq> []"
    and "content_text (resolve_content m3) = Inr t3" and "t3 \<noteq> []"
  shows "map (\<lambda>s. (length (messages s), user_questions s, chat_count s))
           (fst (read_chat_history
                   [\<lparr>copy = Copy_ok, cursorDiskKV = Some [(key, Some (JObj data))]\<rparr>] w))
         = [(3, 1, 2)]"
proof -
  define s0 where "s0 = \<lparr>composerId = dict_get_default data ''composerId'' (JStr []),
        version = dict_get_default data ''_v'' (JInt 0),
        title = py_or (dict_get data ''title'')
                  (dict_get_default data ''name'' (JStr ''Unnamed Session'')),
        messages = [], user_questions = 0, chat_count = 0\<rparr>"
  from process_msg_user [OF assms(3,6,7), of s0 None] obtain s1 where
    p1: "process_msg (JObj m1) (s0, None) = Inr (s1, Some ''user'')"
    and s1: "length (messages s1) = 1" "user_questions s1 = 1" "chat_count s1 = 1"
    by (auto simp: s0_def)
  from process_msg_assistant [OF assms(4,8,9), of s1 "Some ''user''"] obtain s2 where
    p2: "process_msg (JObj m2) (s1, Some ''user'') = Inr (s2, Some ''assistant'')"
    and s2: "length (messages s2) = 2" "user_questions s2 = 1" "chat_count s2 = 2"
    using s1 by auto
  from process_msg_assistant [OF assms(5,10,11), of s2 "Some ''assistant''"] obtain s3 where
    p3: "process_msg (JObj m3) (s2, Some ''assistant'') = Inr (s3, Some ''assistant'')"
    and s3: "length (messages s3) = 3" "user_questions s3 = 1" "chat_count s3 = 2"
    using s2 by auto
  have "process_conversation [JObj m1, JObj m2, JObj m3] (s0, None) = Inr (s3, Some ''assistant'')"
    by (simp add: p1 p2 p3 del: process_msg.simps)
  then have b: "build_session (JObj data) = Inr s3"
    using assms(2) by (simp add: s0_def Let_def)
  from s3 have "messages s3 \<noteq> []" by auto
  from read_single_record [OF assms(1) b this] s3 show ?thesis by simp
qed

theorem user_assistant_assistant_counts_two_witness:
  "map (\<lambda>s. (length (messages s), user_questions s, chat_count s))
     (fst (read_chat_history
        [\<lparr>copy = Copy_ok,
          cursorDiskKV = Some [(''composerData:a1'',
            Some (JObj [(''conversation'', JList
              [JObj [(''role'', JStr ''user''), (''content'', JStr ''q'')],
               JObj [(''role'', JStr ''assistant''), (''content'', JStr ''a'')],
               JObj [(''role'', JStr ''assistant''), (''content'', JStr ''b'')]])]))]\<rparr>]
        \<lparr>files = {}, trace = []\<rparr>))
   = [(3, 1, 2)]"
proof -
  have h1: "like_composerData ''composerData:a1''" by code_simp
  have h2: "dict_get_default [(''conversation'', JList
              [JObj [(''role'', JStr ''user''), (''content'', JStr ''q'')],
               JObj [(''role'', JStr ''assistant''), (''content'', JStr ''a'')],
               JObj [(''role'', JStr ''assistant''), (''content'', JStr ''b'')]])]
            ''conversation'' (JList [])
        = JList [JObj [(''role'', JStr ''user''), (''content'', JStr ''q'')],
               JObj [(''role'', JStr ''assistant''), (''content'', JStr ''a'')],
               JObj [(''role'', JStr ''assistant''), (''content'', JStr ''b'')]]"
    by code_simp
  have h3: "is_user_role (resolve_role [(''role'', JStr ''user''), (''content'', JStr ''q'')])"
    by code_simp
  have h4: "is_assistant_role (resolve_role [(''role'', JStr ''assistant''), (''content'', JStr ''a'')])"
    by code_simp
  have h5: "is_assistant_role (resolve_role [(''role'', JStr ''assistant''), (''content'', JStr ''b'')])"
    by code_simp
  have h6: "content_text (resolve_content [(''role'', JStr ''user''), (''content'', JStr ''q'')]) = Inr ''q''"
    by code_simp
  have h7: "content_text (resolve_content [(''role'', JStr ''assistant''), (''content'', JStr ''a'')]) = Inr ''a''"
    by code_simp
  have h8: "content_text (resolve_content [(''role'', JStr ''assistant''), (''content'', JStr ''b'')]) = Inr ''b''"
    by code_simp
  show ?thesis
    by (rule user_assistant_assistant_counts_two [OF h1 h2 h3 h4 h5 h6 _ h7 _ h8]) simp_all
qed

subsection \<open>Attachments\<close>

text \<open>
  Claim C6. A message whose content is empty or only whitespace, whose record shows an
  attachment marker and whose role is a user indicator is kept with the placeholder as
  content, and both counters go up by one. The witness is the record
  \<^verbatim>\<open>{"role": 1, "content": "", "attachments": ["x.png"]}\<close>.
\<close>

theorem attachment_placeholder:
  assumes "content_text (resolve_content msg) = Inr text" and "blank text"
    and "has_attachment msg"
    and "is_user_role (resolve_role msg)"
  shows "process_msg (JObj msg) (s, cur) =
           Inr (s\<lparr>messages := messages s @ [\<lparr>role = resolve_role msg, content = placeholder\<rparr>],
                  user_questions := user_questions s + 1,
                  chat_count := chat_count s + 1\<rparr>, Some ''user'')"
  using assms user_role_truthy [OF assms(4)]
  by (simp add: Let_def placeholder_nonempty)

theorem attachment_placeholder_witness:
  "content_text (resolve_content
      [(''role'', JInt 1), (''content'', JStr []), (''attachments'', JList [JStr ''x.png''])])
     = Inr []
   \<and> blank []
   \<and> has_attachment
      [(''role'', JInt 1), (''content'', JStr []), (''attachments'', JList [JStr ''x.png''])]
   \<and> is_user_role (resolve_role
      [(''role'', JInt 1), (''content'', JStr []), (''attachments'', JList [JStr ''x.png''])])
   \<and> process_msg
      (JObj [(''role'', JInt 1), (''content'', JStr []), (''attachments'', JList [JStr ''x.png''])])
      (\<lparr>composerId = JStr [], version = JInt 0, title = JStr ''t'', messages = [],
        user_questions = 0, chat_count = 0\<rparr>, None)
     = Inr (\<lparr>composerId = JStr [], version = JInt 0, title = JStr ''t'',
             messages = [\<lparr>role = JInt 1, content = placeholder\<rparr>],
             user_questions = 1, chat_count = 1\<rparr>, Some ''user'')"
proof -
  have h1: "content_text (resolve_content
      [(''role'', JInt 1), (''content'', JStr []), (''attachments'', JList [JStr ''x.png''])])
     = Inr []"
    by code_simp
  have h2: "blank []"
    by (simp add: blank_def)
  have h3: "has_attachment
      [(''role'', JInt 1), (''content'', JStr []), (''attachments'', JList [JStr ''x.png''])]"
    by code_simp
  have h4: "is_user_role (resolve_role
      [(''role'', JInt 1), (''content'', JStr []), (''attachments'', JList [JStr ''x.png''])])"
    by code_simp
  have r: "resolve_role
      [(''role'', JInt 1), (''content'', JStr []), (''attachments'', JList [JStr ''x.png''])]
     = JInt 1"
    by code_simp
  from attachment_placeholder [OF h1 h2 h3 h4,
      of "\<lparr>composerId = JStr [], version = JInt 0, title = JStr ''t'', messages = [],
           user_questions = 0, chat_count = 0\<rparr>" None]
    h1 h2 h3 h4 r
  show ?thesis by simp
qed

subsection \<open>Which messages are kept\<close>

lemma process_msg_kept:
  assumes "process_msg m st = Inr st'" and "kept_ok (fst st)"
  shows "kept_ok (fst st')"
proof (cases m)
  case (JObj d)
  obtain s cur where st: "st = (s, cur)" by (cases st)
  from assms show ?thesis
    unfolding JObj st
    by (auto simp: kept_ok_def Let_def split: sum.splits if_splits)
qed (use assms in auto)

lemma process_conversation_kept:
  "process_conversation ms st = Inr st' \<Longrightarrow> kept_ok (fst st) \<Longrightarrow> kept_ok (fst st')"
proof (induction ms arbitrary: st)
  case Nil
  then show ?case by simp
next
  case (Cons m ms)
  then show ?case
    by (auto split: sum.splits dest: process_msg_kept simp del: process_msg.simps)
qed

lemma build_session_kept:
  assumes "build_session data = Inr s"
  shows "kept_ok s"
proof (cases data)
  case (JObj d)
  with assms obtain conv s0 cur where
    run: "process_conversation conv (s0, None) = Inr (s, cur)" and s0: "messages s0 = []"
    by (auto simp: Let_def split: sum.splits prod.splits)
  have "kept_ok (fst (s0, None :: string option))" by (simp add: kept_ok_def s0)
  from process_conversation_kept [OF run this] show ?thesis by simp
qed (use assms in auto)

lemma resolve_role_truthy: "truthy (resolve_role msg)"
  by (simp add: resolve_role_def py_or_def)

lemma process_msg_other_role:
  assumes "content_text (resolve_content msg) = Inr text" and "text \<noteq> []"
    and "\<not> is_user_role (resolve_role msg)" and "\<not> is_assistant_role (resolve_role msg)"
  shows "process_msg (JObj msg) (st, cur) =
           Inr (st\<lparr>messages := messages st @ [\<lparr>role = resolve_role msg, content = text\<rparr>]\<rparr>, cur)"
  using assms resolve_role_truthy [of msg]
  by (simp add: Let_def)

lemma kept_messages_ok:
  assumes "s \<in> set (fst (read_chat_history dbs w))" and "m \<in> set (messages s)"
  shows "truthy (role m) \<and> content m \<noteq> []"
  using read_chat_history_sessions [of kept_ok dbs w] build_session_kept assms
  unfolding kept_ok_def by blast

text \<open>
  Claim C3, as stated: a message is kept only if its role is one of the two known roles.
  It fails: a record with the role \<^verbatim>\<open>"system"\<close>, which is neither a user nor an assistant
  indicator, and a non-empty content is kept in the session's message list.
\<close>

theorem unknown_role_kept_counterexample:
  "map messages
     (fst (read_chat_history
        [\<lparr>copy = Copy_ok,
          cursorDiskKV = Some [(''composerData:a1'',
            Some (JObj [(''conversation'', JList
              [JObj [(''role'', JStr ''system''), (''content'', JStr ''hi'')]])]))]\<rparr>]
        \<lparr>files = {}, trace = []\<rparr>))
   = [[\<lparr>role = JStr ''system'', content = ''hi''\<rparr>]]
   \<and> \<not> is_user_role (JStr ''system'') \<and> \<not> is_assistant_role (JStr ''system'')"
  by code_simp

text \<open>
  Claim C3, amended. A message is kept in the message list of a session only if its
  content is non-empty. The guard on the role excludes nothing, because every resolved
  role is truthy, and the role need not be one of the two known roles: in its round of
  the message loop, a dictionary message whose role is neither a user nor an assistant
  indicator and whose content is a non-empty string is appended to the message list, and
  it leaves both counters and the cursor as they were.
\<close>

theorem kept_message_rule:
  "(s \<in> set (fst (read_chat_history dbs w)) \<and> m \<in> set (messages s) \<longrightarrow> content m \<noteq> [])
   \<and> truthy (resolve_role msg)
   \<and> (content_text (resolve_content msg) = Inr text \<and> text \<noteq> []
        \<and> \<not> is_user_role (resolve_role msg) \<and> \<not> is_assistant_role (resolve_role msg)
      \<longrightarrow> process_msg (JObj msg) (st, cur) =
            Inr (st\<lparr>messages := messages st @ [\<lparr>role = resolve_role msg, content = text\<rparr>]\<rparr>,
                 cur))"
  using kept_messages_ok [of s dbs w m] resolve_role_truthy [of msg]
    process_msg_other_role [of msg "text" st cur]
  by blast

theorem kept_message_rule_witness:
  "\<lparr>composerId = JStr [], version = JInt 0, title = JStr ''Unnamed Session'',
     messages = [\<lparr>role = JStr ''system'', content = ''hi''\<rparr>],
     user_questions = 0, chat_count = 0\<rparr>
     \<in> set (fst (read_chat_history
        [\<lparr>copy = Copy_ok,
          cursorDiskKV = Some [(''composerData:a1'',
            Some (JObj [(''conversation'', JList
              [JObj [(''role'', JStr ''system''), (''content'', JStr ''hi'')]])]))]\<rparr>]
        \<lparr>files = {}, trace = []\<rparr>))
   \<and> content \<lparr>role = JStr ''system'', content = ''hi''\<rparr> \<noteq> []
   \<and> content_text (resolve_content [(''role'', JStr ''system''), (''content'', JStr ''hi'')])
       = Inr ''hi''
   \<and> resolve_role [(''role'', JStr ''system''), (''content'', JStr ''hi'')] = JStr ''system''
   \<and> \<not> is_user_role (JStr ''system'') \<and> \<not> is_assistant_role (JStr ''system'')
   \<and> process_msg (JObj [(''role'', JStr ''system''), (''content'', JStr ''hi'')])
        (\<lparr>composerId = JStr [], version = JInt 0, title = JStr ''t'', messages = [],
          user_questions = 3, chat_count = 5\<rparr>, Some ''user'')
       = Inr (\<lparr>composerId = JStr [], version = JInt 0, title = JStr ''t'',
               messages = [\<lparr>role = JStr ''system'', content = ''hi''\<rparr>],
               user_questions = 3, chat_count = 5\<rparr>, Some ''user'')"
proof -
  have mem: "\<lparr>composerId = JStr [], version = JInt 0, title = JStr ''Unnamed Session'',
     messages = [\<lparr>role = JStr ''system'', content = ''hi''\<rparr>],
     user_questions = 0, chat_count = 0\<rparr>
     \<in> set (fst (read_chat_history
        [\<lparr>copy = Copy_ok,
          cursorDiskKV = Some [(''composerData:a1'',
            Some (JObj [(''conversation'', JList
              [JObj [(''role'', JStr ''system''), (''content'', JStr ''hi'')]])]))]\<rparr>]
        \<lparr>files = {}, trace = []\<rparr>))"
    by code_simp
  have h1: "content_text (resolve_content [(''role'', JStr ''system''), (''content'', JStr ''hi'')])
       = Inr ''hi''"
    by code_simp
  have r: "resolve_role [(''role'', JStr ''system''), (''content'', JStr ''hi'')] = JStr ''system''"
    by code_simp
  have h3: "\<not> is_user_role (JStr ''system'')" by code_simp
  have h4: "\<not> is_assistant_role (JStr ''system'')" by code_simp
  from kept_message_rule [of
      "\<lparr>composerId = JStr [], version = JInt 0, title = JStr ''Unnamed Session'',
        messages = [\<lparr>role = JStr ''system'', content = ''hi''\<rparr>],
        user_questions = 0, chat_count = 0\<rparr>"
      "[\<lparr>copy = Copy_ok,
          cursorDiskKV = Some [(''composerData:a1'',
            Some (JObj [(''conversation'', JList
              [JObj [(''role'', JStr ''system''), (''content'', JStr ''hi'')]])]))]\<rparr>]"
      "\<lparr>files = {}, trace = []\<rparr>"
      "\<lparr>role = JStr ''system'', content = ''hi''\<rparr>"
      "[(''role'', JStr ''system''), (''content'', JStr ''hi'')]"
      "''hi''"
      "\<lparr>composerId = JStr [], version = JInt 0, title = JStr ''t'', messages = [],
          user_questions = 3, chat_count = 5\<rparr>"
      "Some ''user''"]
    mem h1 r h3 h4
  show ?thesis by simp
qed

section \<open>Properties of the renderer\<close>

subsection \<open>Substrings\<close>

lemma py_startswith_iff: "py_startswith s p \<longleftrightarrow> (\<exists>q. s = p @ q)"
proof
  assume "py_startswith s p"
  then have "s = p @ drop (length p) s"
    by (metis append_take_drop_id py_startswith_def)
  then show "\<exists>q. s = p @ q" ..
next
  assume "\<exists>q. s = p @ q"
  then show "py_startswith s p"
    by (auto simp: py_startswith_def)
qed

lemma py_contains_iff: "py_contains needle hay \<longleftrightarrow> (\<exists>p q. hay = p @ needle @ q)"
proof (induction hay)
  case Nil
  then show ?case by simp
next
  case (Cons c cs)
  show ?case
  proof
    assume "py_contains needle (c # cs)"
    then consider "py_startswith (c # cs) needle" | "py_contains needle cs" by auto
    then show "\<exists>p q. c # cs = p @ needle @ q"
    proof cases
      case 1
      then obtain q where "c # cs = needle @ q" by (auto simp: py_startswith_iff)
      then have "c # cs = [] @ needle @ q" by simp
      then show ?thesis by blast
    next
      case 2
      with Cons.IH obtain p q where "cs = p @ needle @ q" by blast
      then have "c # cs = (c # p) @ needle @ q" by simp
      then show ?thesis by blast
    qed
  next
    assume "\<exists>p q. c # cs = p @ needle @ q"
    then obtain p q where eq: "c # cs = p @ needle @ q" by blast
    show "py_contains needle (c # cs)"
    proof (cases p)
      case Nil
      with eq have "py_startswith (c # cs) needle" by (auto simp: py_startswith_iff)
      then show ?thesis by simp
    next
      case (Cons a p')
      with eq have "cs = p' @ needle @ q" by simp
      with Cons.IH have "py_contains needle cs" by blast
      then show ?thesis by simp
    qed
  qed
qed

lemma py_contains_appendI: "py_contains needle (p @ needle @ q)"
  by (auto simp: py_contains_iff)

lemma py_contains_trans:
  "py_contains a b \<Longrightarrow> py_contains b c \<Longrightarrow> py_contains a c"
proof -
  assume "py_contains a b" and "py_contains b c"
  then obtain p q p' q' where "b = p @ a @ q" and "c = p' @ b @ q'"
    by (auto simp: py_contains_iff)
  then have "c = (p' @ p) @ a @ (q @ q')" by simp
  then show ?thesis unfolding py_contains_iff by blast
qed

lemma py_join_contains: "x \<in> set xs \<Longrightarrow> py_contains x (py_join sep xs)"
proof (induction sep xs rule: py_join.induct)
  case (1 sep)
  then show ?case by simp
next
  case (2 sep y)
  then have "py_join sep [y] = [] @ x @ []" by simp
  then show ?case unfolding py_contains_iff by blast
next
  case (3 sep y z zs)
  show ?case
  proof (cases "x = y")
    case True
    then have "py_join sep (y # z # zs) = [] @ x @ (sep @ py_join sep (z # zs))" by simp
    then show ?thesis unfolding py_contains_iff by blast
  next
    case False
    with 3 have "py_contains x (py_join sep (z # zs))" by auto
    then obtain p q where "py_join sep (z # zs) = p @ x @ q" by (auto simp: py_contains_iff)
    then have "py_join sep (y # z # zs) = (y @ sep @ p) @ x @ q" by simp
    then show ?thesis unfolding py_contains_iff by blast
  qed
qed

subsection \<open>Titles in the rendered content\<close>

lemma session_header_title:
  assumes "mode \<noteq> ''current''"
  shows "\<exists>q. session_header s mode = py_str (title s) @ q"
  using assms by (auto simp: session_header_def Let_def)

lemma session_block_header: "py_contains header (session_block header session_content)"
proof -
  have "\<exists>p q. session_block header session_content = p @ header @ q"
    unfolding session_block_def by (metis append.assoc)
  then show ?thesis by (simp add: py_contains_iff)
qed

lemma render_session_block:
  assumes "m \<in> set (messages s)" and "message_block m \<noteq> []"
  shows "render_session mode s =
           [session_block (session_header s mode) (concat (map message_block (messages s)))]"
proof -
  from assms have "messages s \<noteq> []" by auto
  moreover from assms have "concat (map message_block (messages s)) \<noteq> []" by auto
  ultimately show ?thesis by (simp add: render_session_def Let_def)
qed

text \<open>
  In every mode but \<^verbatim>\<open>current\<close>, whose header holds the turn count alone, the title of a
  session with at least one rendered message stands in the content exactly as \<^verbatim>\<open>str\<close>
  formats it.
\<close>

lemma title_inserted_verbatim:
  assumes "mode \<noteq> ''current''"
    and "s \<in> set chat_sessions"
    and "m \<in> set (messages s)" and "message_block m \<noteq> []"
  shows "py_contains (py_str (title s)) (create_html_content chat_sessions mode)"
proof -
  let ?block = "session_block (session_header s mode) (concat (map message_block (messages s)))"
  from session_header_title [OF assms(1)] obtain q where
    "session_header s mode = [] @ py_str (title s) @ q" by auto
  then have "py_contains (py_str (title s)) (session_header s mode)"
    unfolding py_contains_iff by blast
  then have in_block: "py_contains (py_str (title s)) ?block"
    using session_block_header py_contains_trans by blast
  have "?block \<in> set (render_session mode s)"
    by (simp add: render_session_block [OF assms(3,4)])
  with assms(2) have "?block \<in> set (concat (map (render_session mode) chat_sessions))"
    by auto
  then have "py_contains ?block (create_html_content chat_sessions mode)"
    unfolding create_html_content_def by (intro py_join_contains) simp
  with in_block show ?thesis using py_contains_trans by blast
qed

text \<open>
  Claim C5. The claim says that the emitted HTML holds every non-empty session title
  HTML-escaped, consistently with the escaping of message content. The code does not do
  so: for a session with the title \<^verbatim>\<open>a<b\<close> and the message \<^verbatim>\<open>x<y\<close>, the content rendered in
  mode \<^verbatim>\<open>all\<close> holds the message escaped (\<^verbatim>\<open>x&lt;y\<close>) and the title raw (\<^verbatim>\<open>a<b\<close>, never
  \<^verbatim>\<open>a&lt;b\<close>).
\<close>

theorem title_not_escaped:
  "html_escape ''a<b'' = ''a&lt;b''
   \<and> \<not> py_contains ''a&lt;b''
       (create_html_content
          [\<lparr>composerId = JStr [], version = JInt 0, title = JStr ''a<b'',
            messages = [\<lparr>role = JInt 1, content = ''x<y''\<rparr>],
            user_questions = 1, chat_count = 1\<rparr>] ''all'')
   \<and> py_contains ''a<b (Total 1 conversations)''
       (create_html_content
          [\<lparr>composerId = JStr [], version = JInt 0, title = JStr ''a<b'',
            messages = [\<lparr>role = JInt 1, content = ''x<y''\<rparr>],
            user_questions = 1, chat_count = 1\<rparr>] ''all'')
   \<and> py_contains ''x&lt;y''
       (create_html_content
          [\<lparr>composerId = JStr [], version = JInt 0, title = JStr ''a<b'',
            messages = [\<lparr>role = JInt 1, content = ''x<y''\<rparr>],
            user_questions = 1, chat_count = 1\<rparr>] ''all'')"
  by code_simp

subsection \<open>Code fences\<close>

text \<open>
  Claim C8, as stated: the transform turns the message \<^verbatim>\<open>```print(1)```\<close> into a single
  preformatted block. It fails: the output holds no preformatted block.
\<close>

theorem single_line_fence_counterexample:
  "\<not> py_contains ''<pre><code>'' (process_code_blocks ''```print(1)```'')"
  by code_simp

text \<open>
  Claim C8, amended. The transform turns the one-line message \<^verbatim>\<open>```print(1)```\<close> into the
  empty string: the line opens a code block that no later line closes and that has no
  lines, so nothing is emitted, and no triple backtick remains. With the fences on lines
  of their own the output is the single preformatted block.
\<close>

theorem single_line_fence_output:
  "process_code_blocks ''```print(1)```'' = []
   \<and> \<not> py_contains ''```'' (process_code_blocks ''```print(1)```'')
   \<and> process_code_blocks (''```'' @ [CHR 10] @ ''print(1)'' @ [CHR 10] @ ''```'')
       = ''<pre><code>print(1)'' @ [CHR 10] @ ''</code></pre>''"
  by code_simp

subsection \<open>Roles in the transcript\<close>

text \<open>
  A message whose role is the string \<^verbatim>\<open>"1"\<close> or equals the integer 1 gives a user block,
  one whose role is \<^verbatim>\<open>"2"\<close> or equals 2 an assistant block, with the content passed
  through \<open>process_code_blocks\<close>.
\<close>

lemma numeric_role_rendered:
  \<open>message_block \<lparr>role = JStr ''1'', content = c\<rparr>
     = [''<div class="message user-message">'' @ process_code_blocks c @ ''</div>'']\<close>
  \<open>message_block \<lparr>role = JInt 1, content = c\<rparr>
     = [''<div class="message user-message">'' @ process_code_blocks c @ ''</div>'']\<close>
  \<open>message_block \<lparr>role = JStr ''2'', content = c\<rparr>
     = [''<div class="message assistant-message">'' @ process_code_blocks c @ ''</div>'']\<close>
  \<open>message_block \<lparr>role = JInt 2, content = c\<rparr>
     = [''<div class="message assistant-message">'' @ process_code_blocks c @ ''</div>'']\<close>
  by (simp_all add: message_block_def)

text \<open>
  Claim C4. The claim says that a kept message with the role \<^verbatim>\<open>"user"\<close> or
  \<^verbatim>\<open>"assistant"\<close> is rendered as a block. The code does not do so: a record with the
  legacy \<^verbatim>\<open>isUser\<close> flag is kept with a string role and counted by the pass, its
  messages give no block, and the transcript of the session in mode \<^verbatim>\<open>current\<close> is empty.
\<close>

theorem string_role_not_rendered:
  "fst (read_chat_history
        [\<lparr>copy = Copy_ok,
          cursorDiskKV = Some [(''composerData:a1'',
            Some (JObj [(''conversation'', JList
              [JObj [(''isUser'', JBool True), (''text'', JStr ''hello'')],
               JObj [(''isUser'', JBool False), (''text'', JStr ''world'')]])]))]\<rparr>]
        \<lparr>files = {}, trace = []\<rparr>)
     = [\<lparr>composerId = JStr [], version = JInt 0, title = JStr ''Unnamed Session'',
         messages = [\<lparr>role = JStr ''user'', content = ''hello''\<rparr>,
                     \<lparr>role = JStr ''assistant'', content = ''world''\<rparr>],
         user_questions = 1, chat_count = 2\<rparr>]
   \<and> message_block \<lparr>role = JStr ''user'', content = ''hello''\<rparr> = []
   \<and> message_block \<lparr>role = JStr ''assistant'', content = ''world''\<rparr> = []
   \<and> create_html_content
        [\<lparr>composerId = JStr [], version = JInt 0, title = JStr ''Unnamed Session'',
          messages = [\<lparr>role = JStr ''user'', content = ''hello''\<rparr>,
                      \<lparr>role = JStr ''assistant'', content = ''world''\<rparr>],
          user_questions = 1, chat_count = 2\<rparr>] ''current'' = []"
  by code_simp

section \<open>Properties of the extraction pass\<close>








section \<open>Exit status\<close>

text \<open>
  Claim C1. The claim says that \<^verbatim>\<open>main\<close> exits with status 1 when no chat session was
  found. The code does not do so: with a valid mode and no session, every export method
  returns \<^verbatim>\<open>None\<close>, \<^verbatim>\<open>main\<close> prints that the export failed and returns, and the exit
  status is 0, whereas an exception during the export gives the status 1.
\<close>

theorem main_no_sessions_exit_status:
  assumes "mode \<in> set [''current'', ''all'', ''summary'', ''current-summary'']"
    and "fst (read_chat_history (db_paths exporter) (cwd exporter)) = []"
  shows "main [prog, mode] exporter = (Export_failed_no_chat_records, 0)"
  using assms
  by (auto simp: main_def Let_def export_current_chat_def export_all_chats_def
      export_current_summary_def export_summary_def)

theorem main_no_sessions_exit_status_witness:
  "main [''chat_export.py'', ''all'']
     \<lparr>db_paths = [], cwd = \<lparr>files = {}, trace = []\<rparr>,
      write_current_chat = (\<lambda>chat_sessions. Inl OSError),
      write_all_chats = (\<lambda>chat_sessions. Inl OSError),
      write_current_summary = (\<lambda>chat_sessions. Inl OSError),
      write_summary = (\<lambda>chat_sessions. Inl OSError)\<rparr>
     = (Export_failed_no_chat_records, 0)
   \<and> main [''chat_export.py'', ''all'']
     \<lparr>db_paths = [\<lparr>copy = Copy_ok,
          cursorDiskKV = Some [(''composerData:a1'',
            Some (JObj [(''conversation'', JList
              [JObj [(''role'', JInt 1), (''content'', JStr ''q'')]])]))]\<rparr>],
      cwd = \<lparr>files = {}, trace = []\<rparr>,
      write_current_chat = (\<lambda>chat_sessions. Inl OSError),
      write_all_chats = (\<lambda>chat_sessions. Inl OSError),
      write_current_summary = (\<lambda>chat_sessions. Inl OSError),
      write_summary = (\<lambda>chat_sessions. Inl OSError)\<rparr>
     = (Error_during_export OSError, 1)"
proof -
  have h1: "''all'' \<in> set [''current'', ''all'', ''summary'', ''current-summary'']"
    by simp
  have h2: "fst (read_chat_history
      (db_paths \<lparr>db_paths = [], cwd = \<lparr>files = {}, trace = []\<rparr>,
        write_current_chat = (\<lambda>chat_sessions. Inl OSError),
        write_all_chats = (\<lambda>chat_sessions. Inl OSError),
        write_current_summary = (\<lambda>chat_sessions. Inl OSError),
        write_summary = (\<lambda>chat_sessions. Inl OSError)\<rparr>)
      (cwd \<lparr>db_paths = [], cwd = \<lparr>files = {}, trace = []\<rparr>,
        write_current_chat = (\<lambda>chat_sessions. Inl OSError),
        write_all_chats = (\<lambda>chat_sessions. Inl OSError),
        write_current_summary = (\<lambda>chat_sessions. Inl OSError),
        write_summary = (\<lambda>chat_sessions. Inl OSError)\<rparr>)) = []"
    by (simp add: read_chat_history_def)
  have sessions: "fst (read_chat_history
      [\<lparr>copy = Copy_ok,
          cursorDiskKV = Some [(''composerData:a1'',
            Some (JObj [(''conversation'', JList
              [JObj [(''role'', JInt 1), (''content'', JStr ''q'')]])]))]\<rparr>]
      \<lparr>files = {}, trace = []\<rparr>)
     = [\<lparr>composerId = JStr [], version = JInt 0, title = JStr ''Unnamed Session'',
         messages = [\<lparr>role = JInt 1, content = ''q''\<rparr>],
         user_questions = 1, chat_count = 1\<rparr>]"
    by code_simp
  have raised: "main [''chat_export.py'', ''all'']
     \<lparr>db_paths = [\<lparr>copy = Copy_ok,
          cursorDiskKV = Some [(''composerData:a1'',
            Some (JObj [(''conversation'', JList
              [JObj [(''role'', JInt 1), (''content'', JStr ''q'')]])]))]\<rparr>],
      cwd = \<lparr>files = {}, trace = []\<rparr>,
      write_current_chat = (\<lambda>chat_sessions. Inl OSError),
      write_all_chats = (\<lambda>chat_sessions. Inl OSError),
      write_current_summary = (\<lambda>chat_sessions. Inl OSError),
      write_summary = (\<lambda>chat_sessions. Inl OSError)\<rparr>
     = (Error_during_export OSError, 1)"
    by (simp add: main_def export_all_chats_def sessions)
  from main_no_sessions_exit_status [OF h1 h2, of "''chat_export.py''"] raised
  show ?thesis by simp
qed

end
